theory Spec2Isabelle
  imports Main
begin

section \<open>Data model\<close>

text \<open>
  Modelled from the spec: the type \<^verbatim>\<open>CollectionStatus\<close> is imported from \<^verbatim>\<open>./types\<close>,
  which is not among the sources. The five values are the strings the code compares
  against: "idle", "loading", "ready", "error", "cleaned-up".
\<close>

datatype CollectionStatus = Idle | Loading | Ready | Error | CleanedUp

text \<open>A JavaScript \<^verbatim>\<open>Error\<close> object, as built by \<^verbatim>\<open>new Error(msg)\<close>.\<close>

datatype jsError = JsError (message: string)

text \<open>
  The \<^verbatim>\<open>Result\<close> of the atom library, as the code builds it: \<^verbatim>\<open>Result.initial(waiting)\<close>,
  \<^verbatim>\<open>Result.success(value)\<close>, \<^verbatim>\<open>Result.fail(error)\<close>.
\<close>

datatype ('a, 'e) Result = Initial bool | Success 'a | Failure 'e

text \<open>
  What a Success carries: an array of entities, one entity, or \<^verbatim>\<open>undefined\<close>
  (\<^verbatim>\<open>entries[0]\<close> of an empty array, or the explicit \<^verbatim>\<open>undefined\<close> of the single atom).
\<close>

datatype 'v projection = Many "'v list" | One 'v | Undefined

text \<open>The three constructors that bridge a collection to a cell.\<close>

datatype atomKind = CollectionAtom | SingleAtom | QueryAtom

text \<open>
  A callback registered with a collection, defunctionalised: the closure one of the three
  constructors passes to \<^verbatim>\<open>subscribeChanges\<close>, or the callback of some other consumer of the
  same collection, which does not touch this cell.
\<close>

datatype callback = OwnCallback atomKind | ForeignCallback

text \<open>
  The collaborator collection, as far as the code observes it: \<^verbatim>\<open>status\<close>,
  \<^verbatim>\<open>entries()\<close> (in iteration order), \<^verbatim>\<open>config?.singleResult\<close> (None when the
  configuration or the field is missing or not a boolean), whether sync has been started, and the
  live subscriptions in registration order, each with the handle \<^verbatim>\<open>subscribeChanges\<close>
  returned for it.
\<close>

record ('k, 'v) collection =
  status :: CollectionStatus
  entries :: "('k \<times> 'v) list"
  config_singleResult :: "bool option"
  syncStarted :: bool
  subscribers :: "(nat \<times> callback) list"
  issued :: nat

text \<open>
  The calls the code makes on its collaborators, in the order it makes them.
\<close>

datatype event =
    StartSyncImmediate
  | CreateLiveQueryCollection bool int
  | SubscribeChanges nat
  | AddFinalizer nat
  | ReadStatus
  | ReadEntries
  | ReadConfig
  | SetSelf
  | Unsubscribe nat

text \<open>
  The state the read function of a cell runs in: the backing collection, the value of the
  cell visible to its readers (None before the first evaluation), the finalizers registered
  through \<^verbatim>\<open>get.addFinalizer\<close> (each closure is \<^verbatim>\<open>() => subscription.unsubscribe()\<close>,
  kept as the handle of its subscription), and the log of collaborator calls.
\<close>

record ('k, 'v) world =
  coll :: "('k, 'v) collection"
  selfValue :: "('v projection, jsError) Result option"
  finalizers :: "nat list"
  trace :: "event list"

section \<open>The collaborators\<close>

text \<open>
  Modelled from the spec: the collection engine is an external library; section 6 of the
  specification gives its interface. \<^verbatim>\<open>startSyncImmediate\<close> begins syncing if not already
  started.
\<close>

definition startSyncImmediate :: "('k, 'v) collection \<Rightarrow> ('k, 'v) collection" where
  "startSyncImmediate c = (if syncStarted c then c else c\<lparr>syncStarted := True\<rparr>)"

text \<open>
  Modelled from the spec: \<^verbatim>\<open>subscribeChanges(callback) -> {unsubscribe()}\<close> registers the
  callback and returns a handle; \<^verbatim>\<open>unsubscribe\<close> removes the registration of that handle.
  A collection that gets a subscriber begins syncing if it has not begun: section 4.2 gives
  this effect to every bridge, and subscribing is the one call the bridge of makeQuery
  makes on a collection created with startSync false.
\<close>

definition subscribeChanges ::
  "callback \<Rightarrow> ('k, 'v) collection \<Rightarrow> ('k, 'v) collection \<times> nat" where
  "subscribeChanges cb c =
     (c\<lparr>syncStarted := True, subscribers := subscribers c @ [(issued c, cb)],
        issued := Suc (issued c)\<rparr>, issued c)"

definition unsubscribe :: "nat \<Rightarrow> ('k, 'v) collection \<Rightarrow> ('k, 'v) collection" where
  "unsubscribe h c = c\<lparr>subscribers := filter (\<lambda>s. fst s \<noteq> h) (subscribers c)\<rparr>"

text \<open>The same calls made from a read function: the collection changes and the call is logged.\<close>

definition call_startSyncImmediate :: "('k, 'v) world \<Rightarrow> ('k, 'v) world" where
  "call_startSyncImmediate w =
     w\<lparr>coll := startSyncImmediate (coll w), trace := trace w @ [StartSyncImmediate]\<rparr>"

definition call_subscribeChanges :: "callback \<Rightarrow> ('k, 'v) world \<Rightarrow> ('k, 'v) world \<times> nat" where
  "call_subscribeChanges cb w =
     (w\<lparr>coll := fst (subscribeChanges cb (coll w)),
        trace := trace w @ [SubscribeChanges (snd (subscribeChanges cb (coll w)))]\<rparr>,
      snd (subscribeChanges cb (coll w)))"

definition call_unsubscribe :: "nat \<Rightarrow> ('k, 'v) world \<Rightarrow> ('k, 'v) world" where
  "call_unsubscribe h w = w\<lparr>coll := unsubscribe h (coll w), trace := trace w @ [Unsubscribe h]\<rparr>"

definition read_status :: "('k, 'v) world \<Rightarrow> ('k, 'v) world \<times> CollectionStatus" where
  "read_status w = (w\<lparr>trace := trace w @ [ReadStatus]\<rparr>, status (coll w))"

definition read_entries :: "('k, 'v) world \<Rightarrow> ('k, 'v) world \<times> ('k \<times> 'v) list" where
  "read_entries w = (w\<lparr>trace := trace w @ [ReadEntries]\<rparr>, entries (coll w))"

definition read_config :: "('k, 'v) world \<Rightarrow> ('k, 'v) world \<times> bool option" where
  "read_config w = (w\<lparr>trace := trace w @ [ReadConfig]\<rparr>, config_singleResult (coll w))"

text \<open>
  Modelled from the spec: the reactive-cell host is an external library; section 6 gives
  \<^verbatim>\<open>get.setSelf(v)\<close> (push a new value for the current cell) and \<^verbatim>\<open>get.addFinalizer(fn)\<close>
  (register a teardown action).
\<close>

definition setSelf :: "('v projection, jsError) Result \<Rightarrow> ('k, 'v) world \<Rightarrow> ('k, 'v) world" where
  "setSelf v w = w\<lparr>selfValue := Some v, trace := trace w @ [SetSelf]\<rparr>"

definition addFinalizer :: "nat \<Rightarrow> ('k, 'v) world \<Rightarrow> ('k, 'v) world" where
  "addFinalizer h w = w\<lparr>finalizers := finalizers w @ [h], trace := trace w @ [AddFinalizer h]\<rparr>"

section \<open>makeCollectionAtom\<close>

text \<open>The closure passed to \<^verbatim>\<open>subscribeChanges\<close> (lines 35-55).\<close>

definition collectionCallback :: "('k, 'v) world \<Rightarrow> ('k, 'v) world" where
  "collectionCallback w =
     (case read_status w of (w1, st) \<Rightarrow>
        if st = Error then setSelf (Failure (JsError ''Collection failed to load'')) w1
        else if st = Loading \<or> st = Idle then setSelf (Initial True) w1
        else if st = CleanedUp then
          setSelf (Failure (JsError ''Collection has been cleaned up'')) w1
        else (case read_entries w1 of (w2, es) \<Rightarrow> setSelf (Success (Many (map snd es))) w2))"

text \<open>
  The first half of the read function (lines 30-60): start sync, subscribe, register the
  finalizer of the subscription.
\<close>

definition makeCollectionAtom_subscribe :: "('k, 'v) world \<Rightarrow> ('k, 'v) world" where
  "makeCollectionAtom_subscribe w =
     (case call_subscribeChanges (OwnCallback CollectionAtom) (call_startSyncImmediate w) of
        (w2, subscription) \<Rightarrow> addFinalizer subscription w2)"

text \<open>The second half (lines 62-80): sample the status and return the initial value.\<close>

definition makeCollectionAtom_initial ::
  "('k, 'v) world \<Rightarrow> ('k, 'v) world \<times> ('v projection, jsError) Result" where
  "makeCollectionAtom_initial w =
     (case read_status w of (w1, st) \<Rightarrow>
        if st = Error then (w1, Failure (JsError ''Collection failed to load''))
        else if st = Loading \<or> st = Idle then (w1, Initial True)
        else if st = CleanedUp then (w1, Failure (JsError ''Collection has been cleaned up''))
        else (case read_entries w1 of (w2, es) \<Rightarrow> (w2, Success (Many (map snd es)))))"

definition makeCollectionAtom_read ::
  "('k, 'v) world \<Rightarrow> ('k, 'v) world \<times> ('v projection, jsError) Result" where
  "makeCollectionAtom_read w = makeCollectionAtom_initial (makeCollectionAtom_subscribe w)"

section \<open>makeSingleCollectionAtom\<close>

text \<open>The closure passed to \<^verbatim>\<open>subscribeChanges\<close> (lines 97-118).\<close>

definition singleCallback :: "('k, 'v) world \<Rightarrow> ('k, 'v) world" where
  "singleCallback w =
     (case read_status w of (w1, st) \<Rightarrow>
        if st = Error then setSelf (Failure (JsError ''Collection failed to load'')) w1
        else if st = Loading \<or> st = Idle then setSelf (Initial True) w1
        else if st = CleanedUp then
          setSelf (Failure (JsError ''Collection has been cleaned up'')) w1
        else (case read_entries w1 of (w2, es) \<Rightarrow>
          setSelf (Success (if length es > 0 then One (snd (es ! 0)) else Undefined)) w2))"

definition makeSingleCollectionAtom_subscribe :: "('k, 'v) world \<Rightarrow> ('k, 'v) world" where
  "makeSingleCollectionAtom_subscribe w =
     (case call_subscribeChanges (OwnCallback SingleAtom) (call_startSyncImmediate w) of
        (w2, subscription) \<Rightarrow> addFinalizer subscription w2)"

definition makeSingleCollectionAtom_initial ::
  "('k, 'v) world \<Rightarrow> ('k, 'v) world \<times> ('v projection, jsError) Result" where
  "makeSingleCollectionAtom_initial w =
     (case read_status w of (w1, st) \<Rightarrow>
        if st = Error then (w1, Failure (JsError ''Collection failed to load''))
        else if st = Loading \<or> st = Idle then (w1, Initial True)
        else if st = CleanedUp then (w1, Failure (JsError ''Collection has been cleaned up''))
        else (case read_entries w1 of (w2, es) \<Rightarrow>
          (w2, Success (if length es > 0 then One (snd (es ! 0)) else Undefined))))"

definition makeSingleCollectionAtom_read ::
  "('k, 'v) world \<Rightarrow> ('k, 'v) world \<times> ('v projection, jsError) Result" where
  "makeSingleCollectionAtom_read w =
     makeSingleCollectionAtom_initial (makeSingleCollectionAtom_subscribe w)"

section \<open>Query descriptors\<close>

text \<open>
  A query-descriptor function, as far as the builder handle it receives can tell: what it
  does, step by step, to the handle and to the values it gets from it (read a property of
  the current value, call the current value, use it with \<^verbatim>\<open>new\<close>), and what it returns in
  the end: \<^verbatim>\<open>null\<close>, \<^verbatim>\<open>undefined\<close> or the value the steps ended on. Arguments are opaque.
\<close>

datatype step = Get string | Call "string list" | New "string list"

datatype returns = ReturnsNull | ReturnsUndefined | ReturnsChain

record queryFn =
  steps :: "step list"
  returns :: returns

text \<open>The method call \<^verbatim>\<open>.name(args)\<close> is the read of the property and the call of what it gave.\<close>

type_synonym methodCall = "string \<times> string list"

definition methodChain :: "methodCall list \<Rightarrow> step list" where
  "methodChain ms = concat (map (\<lambda>m. [Get (fst m), Call (snd m)]) ms)"

text \<open>
  The values a descriptor can hold while it runs: \<^verbatim>\<open>null\<close>, \<^verbatim>\<open>undefined\<close>, the proxy of
  line 247, the arrow function \<^verbatim>\<open>() => proxyBuilder\<close> its trap returns, the builder of the
  engine and a method of that builder.
\<close>

datatype jsValue = JSNull | JSUndefined | ProxyBuilder | ProxyFn | RealBuilder | RealMethod

text \<open>
  Why a run did not return: JavaScript threw a TypeError, or the descriptor used something
  this model does not describe.
\<close>

datatype stop = TypeError | Unmodelled

text \<open>
  The property names a function object can answer to, of its own or through
  \<^verbatim>\<open>Function.prototype\<close> and \<^verbatim>\<open>Object.prototype\<close>. What they give is not modelled; any
  other name read on a function gives \<^verbatim>\<open>undefined\<close>.
\<close>

definition functionMembers :: "string list" where
  "functionMembers =
     [''length'', ''name'', ''prototype'', ''apply'', ''bind'', ''call'', ''toString'',
      ''constructor'', ''caller'', ''arguments'', ''hasOwnProperty'', ''isPrototypeOf'',
      ''propertyIsEnumerable'', ''toLocaleString'', ''valueOf'', ''__proto__'',
      ''__defineGetter__'', ''__defineSetter__'', ''__lookupGetter__'', ''__lookupSetter__'']"

text \<open>
  Modelled from the spec: the builder of the engine is not among the sources. These are
  the builder methods the descriptors of the repository's documentation and tests call;
  each returns a builder. Nothing else about that builder is modelled.
\<close>

definition builderMethods :: "string list" where
  "builderMethods = [''from'', ''where'', ''select'', ''orderBy'', ''limit'', ''join'']"

text \<open>
  The \<^verbatim>\<open>get\<close> trap (lines 248-253): whatever the property, it assigns
  \<^verbatim>\<open>queryReturnsNull = false\<close> and returns the arrow function. The flag is the local
  variable of the read function, passed through.
\<close>

definition proxy_get :: "bool \<Rightarrow> string \<Rightarrow> bool \<times> jsValue" where
  "proxy_get queryReturnsNull property = (False, ProxyFn)"

text \<open>A call of that arrow function, \<^verbatim>\<open>() => proxyBuilder\<close>, whatever the arguments.\<close>

definition proxyFn_call :: "string list \<Rightarrow> jsValue" where
  "proxyFn_call args = ProxyBuilder"

text \<open>
  One step on the current value. The proxy wraps a plain object: reading a property goes
  through the trap, calling it or using it with \<^verbatim>\<open>new\<close> throws. The arrow function can
  be called; it is no constructor, and it has no properties but those of every function.
  Every step on \<^verbatim>\<open>null\<close> and \<^verbatim>\<open>undefined\<close> throws.
\<close>

fun evalStep :: "bool \<Rightarrow> jsValue \<Rightarrow> step \<Rightarrow> stop + bool \<times> jsValue" where
  "evalStep flag ProxyBuilder (Get name) = Inr (proxy_get flag name)"
| "evalStep flag ProxyBuilder (Call args) = Inl TypeError"
| "evalStep flag ProxyBuilder (New args) = Inl TypeError"
| "evalStep flag ProxyFn (Get name) =
     (if name \<in> set functionMembers then Inl Unmodelled else Inr (flag, JSUndefined))"
| "evalStep flag ProxyFn (Call args) = Inr (flag, proxyFn_call args)"
| "evalStep flag ProxyFn (New args) = Inl TypeError"
| "evalStep flag JSNull s = Inl TypeError"
| "evalStep flag JSUndefined s = Inl TypeError"
| "evalStep flag RealBuilder (Get name) =
     (if name \<in> set builderMethods then Inr (flag, RealMethod) else Inl Unmodelled)"
| "evalStep flag RealBuilder (Call args) = Inl Unmodelled"
| "evalStep flag RealBuilder (New args) = Inl Unmodelled"
| "evalStep flag RealMethod (Get name) =
     (if name \<in> set functionMembers then Inl Unmodelled else Inr (flag, JSUndefined))"
| "evalStep flag RealMethod (Call args) = Inr (flag, RealBuilder)"
| "evalStep flag RealMethod (New args) = Inl Unmodelled"

fun runSteps :: "bool \<Rightarrow> jsValue \<Rightarrow> step list \<Rightarrow> stop + bool \<times> jsValue" where
  "runSteps flag v [] = Inr (flag, v)"
| "runSteps flag v (s # ss) =
     (case evalStep flag v s of
        Inl e \<Rightarrow> Inl e
      | Inr (flag', v') \<Rightarrow> runSteps flag' v' ss)"

text \<open>\<^verbatim>\<open>queryFn(builder)\<close>, as at line 256 with the proxy.\<close>

definition applyQueryFn :: "queryFn \<Rightarrow> bool \<Rightarrow> jsValue \<Rightarrow> stop + bool \<times> jsValue" where
  "applyQueryFn q flag builder =
     (case runSteps flag builder (steps q) of
        Inl e \<Rightarrow> Inl e
      | Inr (flag', v) \<Rightarrow>
          Inr (flag', case returns q of
                        ReturnsNull \<Rightarrow> JSNull
                      | ReturnsUndefined \<Rightarrow> JSUndefined
                      | ReturnsChain \<Rightarrow> v))"

section \<open>makeQuery\<close>

text \<open>
  Modelled from the spec: the type \<^verbatim>\<open>QueryOptions\<close> is imported from \<^verbatim>\<open>./types\<close>, which is
  not among the sources; section 4.4 gives its three optional fields.
\<close>

record QueryOptions =
  startSync :: "bool option"
  gcTime :: "int option"
  suspendOnWaiting :: "bool option"

text \<open>The argument of \<^verbatim>\<open>createLiveQueryCollection\<close> (lines 158-162).\<close>

record liveQueryConfig =
  config_query :: queryFn
  config_startSync :: bool
  config_gcTime :: int

definition liveQueryConfigOf :: "queryFn \<Rightarrow> QueryOptions option \<Rightarrow> liveQueryConfig" where
  "liveQueryConfigOf q options =
     \<lparr>config_query = q,
      config_startSync =
        (case options of None \<Rightarrow> True
         | Some opts \<Rightarrow> (case startSync opts of None \<Rightarrow> True | Some b \<Rightarrow> b)),
      config_gcTime =
        (case options of None \<Rightarrow> 0
         | Some opts \<Rightarrow> (case gcTime opts of None \<Rightarrow> 0 | Some n \<Rightarrow> n))\<rparr>"

text \<open>The closure passed to \<^verbatim>\<open>subscribeChanges\<close> (lines 166-189).\<close>

definition queryCallback :: "('k, 'v) world \<Rightarrow> ('k, 'v) world" where
  "queryCallback w =
     (case read_status w of (w1, st) \<Rightarrow>
        if st = Error then setSelf (Failure (JsError ''Query failed to load'')) w1
        else if st = Loading \<or> st = Idle then setSelf (Initial True) w1
        else if st = CleanedUp then
          setSelf (Failure (JsError ''Query collection has been cleaned up'')) w1
        else (case read_config w1 of (w2, cfg) \<Rightarrow>
          (case read_entries w2 of (w3, es) \<Rightarrow>
             let isSingleResult = (cfg = Some True); vs = map snd es
             in setSelf (Success (if isSingleResult
                                  then (if 0 < length vs then One (vs ! 0) else Undefined)
                                  else Many vs)) w3)))"

text \<open>
  The first half of the read function (lines 157-194), for a call of
  \<^verbatim>\<open>createLiveQueryCollection\<close> that returns. The engine behind that call is the
  parameter \<open>create\<close>: it gives the new collection for a configuration.
\<close>

definition makeQuery_subscribe ::
  "(liveQueryConfig \<Rightarrow> ('k, 'v) collection) \<Rightarrow> queryFn \<Rightarrow> QueryOptions option
     \<Rightarrow> ('k, 'v) world \<Rightarrow> ('k, 'v) world" where
  "makeQuery_subscribe create q options w =
     (let cfg = liveQueryConfigOf q options;
          w1 = w\<lparr>coll := create cfg,
                 trace := trace w @
                   [CreateLiveQueryCollection (config_startSync cfg) (config_gcTime cfg)]\<rparr>
      in case call_subscribeChanges (OwnCallback QueryAtom) w1 of
           (w2, subscription) \<Rightarrow> addFinalizer subscription w2)"

text \<open>The second half (lines 196-216).\<close>

definition makeQuery_initial ::
  "('k, 'v) world \<Rightarrow> ('k, 'v) world \<times> ('v projection, jsError) Result" where
  "makeQuery_initial w =
     (case read_status w of (w1, st) \<Rightarrow>
        if st = Error then (w1, Failure (JsError ''Query failed to load''))
        else if st = Loading \<or> st = Idle then (w1, Initial True)
        else if st = CleanedUp then
          (w1, Failure (JsError ''Query collection has been cleaned up''))
        else (case read_config w1 of (w2, cfg) \<Rightarrow>
          (case read_entries w2 of (w3, es) \<Rightarrow>
             let isSingleResult = (cfg = Some True); vs = map snd es
             in (w3, Success (if isSingleResult
                              then (if 0 < length vs then One (vs ! 0) else Undefined)
                              else Many vs)))))"

definition makeQuery_read ::
  "(liveQueryConfig \<Rightarrow> ('k, 'v) collection) \<Rightarrow> queryFn \<Rightarrow> QueryOptions option
     \<Rightarrow> ('k, 'v) world \<Rightarrow> ('k, 'v) world \<times> ('v projection, jsError) Result" where
  "makeQuery_read create q options w =
     makeQuery_initial (makeQuery_subscribe create q options w)"

section \<open>The host\<close>

text \<open>
  Modelled from the spec: \<^verbatim>\<open>get(atom)\<close> of the host on a cell made for this read: the
  read function of that cell runs and what it returns becomes the value of the cell.
\<close>

definition get_cell ::
  "(('k, 'v) world \<Rightarrow> ('k, 'v) world \<times> ('v projection, jsError) Result)
     \<Rightarrow> ('k, 'v) world \<Rightarrow> ('k, 'v) world \<times> ('v projection, jsError) Result" where
  "get_cell read w = (case read w of (w', r) \<Rightarrow> (w'\<lparr>selfValue := Some r\<rparr>, r))"

text \<open>
  Modelled from the spec: tearing a cell down runs each registered finalizer once and
  forgets it.
\<close>

definition teardown :: "('k, 'v) world \<Rightarrow> ('k, 'v) world" where
  "teardown w = fold call_unsubscribe (finalizers w) (w\<lparr>finalizers := []\<rparr>)"

section \<open>A throw of createLiveQueryCollection\<close>

text \<open>
  Modelled from the spec: the entry point of the engine runs the descriptor on a builder
  of its own (section 4.5: the descriptor is invoked a second time, with a real builder)
  and then gives the new collection. If the descriptor throws there, the call throws.
  Which collection it gives is the parameter; what it does with a descriptor that does not
  return a builder is not modelled.
\<close>

definition createLiveQueryCollection ::
  "(liveQueryConfig \<Rightarrow> ('k, 'v) collection) \<Rightarrow> liveQueryConfig \<Rightarrow> stop + ('k, 'v) collection" where
  "createLiveQueryCollection create cfg =
     (case applyQueryFn (config_query cfg) False RealBuilder of
        Inl e \<Rightarrow> Inl e
      | Inr (flag, built) \<Rightarrow> (if built = RealBuilder then Inr (create cfg) else Inl Unmodelled))"

text \<open>
  The read function of makeQuery with both outcomes of the call at line 158: no statement
  of the read function catches a throw of createLiveQueryCollection, so it leaves the read
  function; when the call returns a collection the evaluation goes on as makeQuery_read
  describes it.
\<close>

definition makeQuery_eval ::
  "(liveQueryConfig \<Rightarrow> ('k, 'v) collection) \<Rightarrow> queryFn \<Rightarrow> QueryOptions option
     \<Rightarrow> ('k, 'v) world \<Rightarrow> stop + ('k, 'v) world \<times> ('v projection, jsError) Result" where
  "makeQuery_eval create q options w =
     (case createLiveQueryCollection create (liveQueryConfigOf q options) of
        Inl e \<Rightarrow> Inl e
      | Inr collection \<Rightarrow> Inr (makeQuery_read (\<lambda>cfg. collection) q options w))"

text \<open>
  Modelled from the spec: \<^verbatim>\<open>get(atom)\<close> when the read function of the cell may throw: the
  throw leaves \<^verbatim>\<open>get\<close>.
\<close>

definition get_eval ::
  "(('k, 'v) world \<Rightarrow> stop + ('k, 'v) world \<times> ('v projection, jsError) Result)
     \<Rightarrow> ('k, 'v) world \<Rightarrow> stop + ('k, 'v) world \<times> ('v projection, jsError) Result" where
  "get_eval read w =
     (case read w of Inl e \<Rightarrow> Inl e | Inr (w', r) \<Rightarrow> Inr (w'\<lparr>selfValue := Some r\<rparr>, r))"

section \<open>makeQueryUnsafe and makeQueryConditional\<close>

text \<open>\<^verbatim>\<open>Result.getOrElse(result, orElse)\<close> of the atom library.\<close>

definition getOrElse :: "('a, 'e) Result \<Rightarrow> 'a \<Rightarrow> 'a" where
  "getOrElse r orElse = (case r of Success v \<Rightarrow> v | Initial b \<Rightarrow> orElse | Failure e \<Rightarrow> orElse)"

text \<open>The read function of makeQueryUnsafe (lines 228-231).\<close>

definition makeQueryUnsafe_read ::
  "(liveQueryConfig \<Rightarrow> ('k, 'v) collection) \<Rightarrow> queryFn \<Rightarrow> QueryOptions option
     \<Rightarrow> ('k, 'v) world \<Rightarrow> stop + ('k, 'v) world \<times> 'v projection" where
  "makeQueryUnsafe_read create q options w =
     (case get_eval (makeQuery_eval create q options) w of
        Inl e \<Rightarrow> Inl e
      | Inr (w', result) \<Rightarrow> Inr (w', getOrElse result Undefined))"

text \<open>
  The read function of makeQueryConditional (lines 242-268). None is the \<^verbatim>\<open>undefined\<close> it
  returns for a disabled query; a throw of the descriptor at line 256, or of the read of
  the makeQuery cell at line 267, leaves the read function.
\<close>

definition makeQueryConditional_read ::
  "(liveQueryConfig \<Rightarrow> ('k, 'v) collection) \<Rightarrow> queryFn \<Rightarrow> QueryOptions option
     \<Rightarrow> ('k, 'v) world
     \<Rightarrow> stop + ('k, 'v) world \<times> ('v projection, jsError) Result option" where
  "makeQueryConditional_read create q options w =
     (case applyQueryFn q False ProxyBuilder of
        Inl e \<Rightarrow> Inl e
      | Inr (flag, query) \<Rightarrow>
          let queryReturnsNull = (if query = JSNull \<or> query = JSUndefined then True else flag)
          in if queryReturnsNull then Inr (w, None)
             else (case get_eval (makeQuery_eval create q options) w of
                     Inl e \<Rightarrow> Inl e
                   | Inr (w', result) \<Rightarrow> Inr (w', Some result)))"

section \<open>Notifications and transitions\<close>

text \<open>Running a registered callback: the closure of the constructor that registered it.\<close>

fun runCallback :: "callback \<Rightarrow> ('k, 'v) world \<Rightarrow> ('k, 'v) world" where
  "runCallback (OwnCallback CollectionAtom) w = collectionCallback w"
| "runCallback (OwnCallback SingleAtom) w = singleCallback w"
| "runCallback (OwnCallback QueryAtom) w = queryCallback w"
| "runCallback ForeignCallback w = w"

text \<open>
  Modelled from the spec: a change notification of the collection invokes every registered
  callback, in registration order.
\<close>

definition notify :: "('k, 'v) world \<Rightarrow> ('k, 'v) world" where
  "notify w = fold (\<lambda>s. runCallback (snd s)) (subscribers (coll w)) w"

text \<open>
  Modelled from the spec: a transition reported by the collection. Its status, its entries
  and its configuration take new values, then the subscribers are notified.
\<close>

record ('k, 'v) change =
  newStatus :: CollectionStatus
  newEntries :: "('k \<times> 'v) list"
  newSingleResult :: "bool option"

definition transition :: "('k, 'v) change \<Rightarrow> ('k, 'v) world \<Rightarrow> ('k, 'v) world" where
  "transition ch w =
     notify (w\<lparr>coll := (coll w)\<lparr>status := newStatus ch, entries := newEntries ch,
                                 config_singleResult := newSingleResult ch\<rparr>\<rparr>)"


section \<open>The three bridging constructors, by kind\<close>

fun evalSubscribe ::
  "(liveQueryConfig \<Rightarrow> ('k, 'v) collection) \<Rightarrow> queryFn \<Rightarrow> QueryOptions option \<Rightarrow> atomKind
     \<Rightarrow> ('k, 'v) world \<Rightarrow> ('k, 'v) world" where
  "evalSubscribe create q options CollectionAtom w = makeCollectionAtom_subscribe w"
| "evalSubscribe create q options SingleAtom w = makeSingleCollectionAtom_subscribe w"
| "evalSubscribe create q options QueryAtom w = makeQuery_subscribe create q options w"

fun evalInitial ::
  "atomKind \<Rightarrow> ('k, 'v) world \<Rightarrow> ('k, 'v) world \<times> ('v projection, jsError) Result" where
  "evalInitial CollectionAtom w = makeCollectionAtom_initial w"
| "evalInitial SingleAtom w = makeSingleCollectionAtom_initial w"
| "evalInitial QueryAtom w = makeQuery_initial w"

fun evalRead ::
  "(liveQueryConfig \<Rightarrow> ('k, 'v) collection) \<Rightarrow> queryFn \<Rightarrow> QueryOptions option \<Rightarrow> atomKind
     \<Rightarrow> ('k, 'v) world \<Rightarrow> ('k, 'v) world \<times> ('v projection, jsError) Result" where
  "evalRead create q options CollectionAtom w = makeCollectionAtom_read w"
| "evalRead create q options SingleAtom w = makeSingleCollectionAtom_read w"
| "evalRead create q options QueryAtom w = makeQuery_read create q options w"

section \<open>The status table of the specification\<close>

text \<open>Whether a message says a phrase: the phrase occurs in it.\<close>

fun says :: "string \<Rightarrow> string \<Rightarrow> bool" where
  "says phrase [] = (phrase = [])"
| "says phrase (c # cs) = (take (length phrase) (c # cs) = phrase \<or> says phrase cs)"

text \<open>
  The table of section 3, as a relation between a status, the projected entries and a
  result: idle and loading give Initial with waiting true, ready gives Success of the
  projection, error gives a Failure that says "failed to load", cleaned-up a Failure that
  says "has been cleaned up".
\<close>

fun matchesTable :: "CollectionStatus \<Rightarrow> 'a \<Rightarrow> ('a, jsError) Result \<Rightarrow> bool" where
  "matchesTable Idle p r = (r = Initial True)"
| "matchesTable Loading p r = (r = Initial True)"
| "matchesTable Ready p r = (r = Success p)"
| "matchesTable Error p r =
     (case r of Failure e \<Rightarrow> says ''failed to load'' (message e) | Initial b \<Rightarrow> False
      | Success v \<Rightarrow> False)"
| "matchesTable CleanedUp p r =
     (case r of Failure e \<Rightarrow> says ''has been cleaned up'' (message e) | Initial b \<Rightarrow> False
      | Success v \<Rightarrow> False)"

text \<open>
  The two projections of section 3: all entries in iteration order, or the first entry if
  there is one. A query atom projects by the configuration of its collection.
\<close>

definition arrayProjection :: "('k, 'v) collection \<Rightarrow> 'v projection" where
  "arrayProjection c = Many (map snd (entries c))"

definition singleProjection :: "('k, 'v) collection \<Rightarrow> 'v projection" where
  "singleProjection c = (case entries c of [] \<Rightarrow> Undefined | (k, v) # rest \<Rightarrow> One v)"

fun projector :: "atomKind \<Rightarrow> ('k, 'v) collection \<Rightarrow> 'v projection" where
  "projector CollectionAtom c = arrayProjection c"
| "projector SingleAtom c = singleProjection c"
| "projector QueryAtom c =
     (if config_singleResult c = Some True then singleProjection c else arrayProjection c)"

text \<open>The table as a function, with the wording each constructor uses for its two errors.\<close>

fun translate ::
  "atomKind \<Rightarrow> CollectionStatus \<Rightarrow> 'a \<Rightarrow> ('a, jsError) Result" where
  "translate k Idle p = Initial True"
| "translate k Loading p = Initial True"
| "translate k Ready p = Success p"
| "translate k Error p =
     Failure (JsError (if k = QueryAtom then ''Query failed to load''
                       else ''Collection failed to load''))"
| "translate k CleanedUp p =
     Failure (JsError (if k = QueryAtom then ''Query collection has been cleaned up''
                       else ''Collection has been cleaned up''))"

definition tableImage :: "atomKind \<Rightarrow> ('k, 'v) collection \<Rightarrow> ('v projection, jsError) Result" where
  "tableImage k c = translate k (status c) (projector k c)"

fun isSuccess :: "('a, 'e) Result \<Rightarrow> bool" where
  "isSuccess (Success v) = True"
| "isSuccess (Initial b) = False"
| "isSuccess (Failure e) = False"

section \<open>Reading the log\<close>

definition newEvents :: "('k, 'v) world \<Rightarrow> ('k, 'v) world \<Rightarrow> event list" where
  "newEvents w w' = drop (length (trace w)) (trace w')"

fun isSubscribe :: "event \<Rightarrow> bool" where
  "isSubscribe (SubscribeChanges h) = True"
| "isSubscribe e = False"

fun isAddFinalizer :: "event \<Rightarrow> bool" where
  "isAddFinalizer (AddFinalizer h) = True"
| "isAddFinalizer e = False"

fun isUnsubscribe :: "event \<Rightarrow> bool" where
  "isUnsubscribe (Unsubscribe h) = True"
| "isUnsubscribe e = False"

text \<open>
  In a log, a subscription is opened, the status is read after it, and is not read before
  it.
\<close>

definition subscribedBeforeSample :: "event list \<Rightarrow> bool" where
  "subscribedBeforeSample evs =
     (ReadStatus \<in> set (dropWhile (\<lambda>e. \<not> isSubscribe e) evs)
      \<and> ReadStatus \<notin> set (takeWhile (\<lambda>e. \<not> isSubscribe e) evs)
      \<and> list_ex isSubscribe evs)"

section \<open>Sequences of values\<close>


text \<open>
  Modelled from the spec: the host evaluates a cell again when a cell it read through
  \<^verbatim>\<open>get\<close> has been pushed a value. The read function of makeQueryConditional reads the
  makeQuery cell it has itself made at line 267. So when a transition makes the callback of
  that cell push, the read function runs again: it probes the descriptor, makes a new
  makeQuery cell with a new collection and returns the first value of that cell; the cell of
  the previous run is torn down. (The world holds one collection, so here the old cell is
  torn down before the new collection takes its place.) The argument \<open>shown\<close> is the value
  the conditional cell shows at the moment.
\<close>

fun reobserve ::
  "(liveQueryConfig \<Rightarrow> ('k, 'v) collection) \<Rightarrow> queryFn \<Rightarrow> QueryOptions option
     \<Rightarrow> ('k, 'v) change list \<Rightarrow> ('k, 'v) world \<Rightarrow> ('v projection, jsError) Result option
     \<Rightarrow> stop + ('v projection, jsError) Result option list" where
  "reobserve create q options [] w shown = Inr []"
| "reobserve create q options (ch # chs) w shown =
     (if SetSelf \<in> set (newEvents w (transition ch w))
      then (case makeQueryConditional_read create q options (teardown (transition ch w)) of
              Inl e \<Rightarrow> Inl e
            | Inr (w', r) \<Rightarrow>
                (case reobserve create q options chs w' r of
                   Inl e \<Rightarrow> Inl e
                 | Inr vs \<Rightarrow> Inr (r # vs)))
      else (case reobserve create q options chs (transition ch w) shown of
              Inl e \<Rightarrow> Inl e
            | Inr vs \<Rightarrow> Inr (shown # vs)))"

text \<open>
  Modelled from the spec: a makeQueryConditional cell shows \<^verbatim>\<open>undefined\<close> throughout when
  the read function returned it (nothing is subscribed that could change it), otherwise
  what its read function returned and then what its re-evaluations return.
\<close>

definition makeQueryConditional_sequence ::
  "(liveQueryConfig \<Rightarrow> ('k, 'v) collection) \<Rightarrow> queryFn \<Rightarrow> QueryOptions option
     \<Rightarrow> ('k, 'v) world \<Rightarrow> ('k, 'v) change list
     \<Rightarrow> stop + ('v projection, jsError) Result option list" where
  "makeQueryConditional_sequence create q options w chs =
     (case makeQueryConditional_read create q options w of
        Inl e \<Rightarrow> Inl e
      | Inr (w', None) \<Rightarrow> Inr (replicate (Suc (length chs)) None)
      | Inr (w', Some r) \<Rightarrow>
          (case reobserve create q options chs w' (Some r) of
             Inl e \<Rightarrow> Inl e
           | Inr vs \<Rightarrow> Inr (Some r # vs)))"

section \<open>Evaluations and what follows them\<close>

text \<open>
  The collection an evaluation subscribes to: the one just created for a query atom,
  the given one after startSyncImmediate for the other two.
\<close>

definition backing ::
  "(liveQueryConfig \<Rightarrow> ('k, 'v) collection) \<Rightarrow> queryFn \<Rightarrow> QueryOptions option \<Rightarrow> atomKind
     \<Rightarrow> ('k, 'v) world \<Rightarrow> ('k, 'v) collection" where
  "backing create q options k w =
     (if k = QueryAtom then create (liveQueryConfigOf q options)
      else startSyncImmediate (coll w))"

text \<open>
  The world after the host has evaluated the cell and the collection has then reported a
  series of transitions.
\<close>

definition afterTransitions ::
  "(liveQueryConfig \<Rightarrow> ('k, 'v) collection) \<Rightarrow> queryFn \<Rightarrow> QueryOptions option \<Rightarrow> atomKind
     \<Rightarrow> ('k, 'v) world \<Rightarrow> ('k, 'v) change list \<Rightarrow> ('k, 'v) world" where
  "afterTransitions create q options k w chs =
     fold transition chs (fst (get_cell (evalRead create q options k) w))"

section \<open>Concrete inputs\<close>

text \<open>
  An engine that gives an empty idle collection, syncing if the configuration asks for it.
\<close>

definition idleEngine :: "liveQueryConfig \<Rightarrow> (nat, string) collection" where
  "idleEngine cfg =
     \<lparr>status = Idle, entries = [], config_singleResult = None,
      syncStarted = config_startSync cfg, subscribers = [], issued = 0\<rparr>"

text \<open>An engine that gives a ready collection of two entries in single-result mode.\<close>

definition readyEngine :: "liveQueryConfig \<Rightarrow> (nat, string) collection" where
  "readyEngine cfg =
     \<lparr>status = Ready, entries = [(1, ''a''), (2, ''b'')], config_singleResult = Some True,
      syncStarted = config_startSync cfg, subscribers = [], issued = 0\<rparr>"

text \<open>A ready collection of two entries nobody has subscribed to, and a cell not yet evaluated.\<close>

definition world0 :: "(nat, string) world" where
  "world0 =
     \<lparr>coll = \<lparr>status = Ready, entries = [(1, ''a''), (2, ''b'')], config_singleResult = None,
              syncStarted = False, subscribers = [], issued = 0\<rparr>,
      selfValue = None, finalizers = [], trace = []\<rparr>"


text \<open>The descriptor \<^verbatim>\<open>(q) => q.from(todos).where(cond)\<close> and the descriptor \<^verbatim>\<open>() => null\<close>.\<close>

definition enabledQuery :: queryFn where
  "enabledQuery = \<lparr>steps = methodChain [(''from'', [''todos'']), (''where'', [''cond''])],
                   returns = ReturnsChain\<rparr>"

definition disabledQuery :: queryFn where
  "disabledQuery = \<lparr>steps = [], returns = ReturnsNull\<rparr>"

text \<open>
  The descriptor \<^verbatim>\<open>(q) => q.from(todos).fn.where(cond)\<close>, which reads a property of what a
  property of the builder gave, and the descriptor \<^verbatim>\<open>(q) => q.from(todos).where.foo(y)\<close>,
  which calls a property no function has.
\<close>

definition fnWhereQuery :: queryFn where
  "fnWhereQuery =
     \<lparr>steps = [Get ''from'', Call [''todos''], Get ''fn'', Get ''where'', Call [''cond'']],
      returns = ReturnsChain\<rparr>"

definition whereFooQuery :: queryFn where
  "whereFooQuery =
     \<lparr>steps = [Get ''from'', Call [''todos''], Get ''where'', Get ''foo'', Call [''y'']],
      returns = ReturnsChain\<rparr>"

text \<open>Two transitions: the collection fails; it becomes ready in single-result mode.\<close>

definition errorChange :: "(nat, string) change" where
  "errorChange = \<lparr>newStatus = Error, newEntries = [], newSingleResult = None\<rparr>"

definition readyChange :: "(nat, string) change" where
  "readyChange =
     \<lparr>newStatus = Ready, newEntries = [(7, ''x''), (8, ''y'')], newSingleResult = Some True\<rparr>"


section \<open>What a callback and a first read compute\<close>

lemmas world_ops =
  read_status_def read_entries_def read_config_def setSelf_def addFinalizer_def
  call_startSyncImmediate_def call_subscribeChanges_def subscribeChanges_def
  startSyncImmediate_def

lemma first_value:
  "(case es of [] \<Rightarrow> Undefined | (k, v) # rest \<Rightarrow> One v) =
     (if es = [] then Undefined else One (snd (es ! 0)))"
  by (cases es) auto

lemma collectionCallback_value:
  "selfValue (collectionCallback w) = Some (tableImage CollectionAtom (coll w))"
  by (cases "status (coll w)")
     (simp_all add: collectionCallback_def world_ops tableImage_def arrayProjection_def)

lemma singleCallback_value:
  "selfValue (singleCallback w) = Some (tableImage SingleAtom (coll w))"
  by (cases "status (coll w)")
     (simp_all add: singleCallback_def world_ops tableImage_def singleProjection_def first_value)

lemma queryCallback_value:
  "selfValue (queryCallback w) = Some (tableImage QueryAtom (coll w))"
  by (cases "status (coll w)")
     (simp_all add: queryCallback_def world_ops tableImage_def singleProjection_def
        arrayProjection_def first_value Let_def)

lemma runCallback_value:
  "selfValue (runCallback (OwnCallback k) w) = Some (tableImage k (coll w))"
  by (cases k) (simp_all add: collectionCallback_value singleCallback_value queryCallback_value)

lemma collectionCallback_coll: "coll (collectionCallback w) = coll w"
  by (cases "status (coll w)") (simp_all add: collectionCallback_def world_ops)

lemma singleCallback_coll: "coll (singleCallback w) = coll w"
  by (cases "status (coll w)") (simp_all add: singleCallback_def world_ops)

lemma queryCallback_coll: "coll (queryCallback w) = coll w"
  by (cases "status (coll w)") (simp_all add: queryCallback_def world_ops Let_def)

lemma runCallback_coll: "coll (runCallback cb w) = coll w"
  by (cases "(cb, w)" rule: runCallback.cases)
    (simp_all add: collectionCallback_coll singleCallback_coll queryCallback_coll)

lemma evalInitial_value: "snd (evalInitial k w) = tableImage k (coll w)"
  by (cases k; cases "status (coll w)")
     (simp_all add: makeCollectionAtom_initial_def makeSingleCollectionAtom_initial_def
        makeQuery_initial_def world_ops tableImage_def singleProjection_def
        arrayProjection_def first_value Let_def)

lemma evalInitial_coll: "coll (fst (evalInitial k w)) = coll w"
  by (cases k; cases "status (coll w)")
     (simp_all add: makeCollectionAtom_initial_def makeSingleCollectionAtom_initial_def
        makeQuery_initial_def world_ops Let_def)


lemma matchesTable_translate: "matchesTable st p (translate k st p)"
  by (cases st; cases k) simp_all

lemma evalRead_phases:
  "evalRead create q options k w = evalInitial k (evalSubscribe create q options k w)"
  by (cases k) (simp_all add: makeCollectionAtom_read_def makeSingleCollectionAtom_read_def
      makeQuery_read_def)

section \<open>The status table\<close>

text \<open>
  Claim C1. For each of the five statuses and each of the three bridging constructors, the
  first synchronous read gives the result of the status table and no other: idle and
  loading give Initial with waiting true, ready gives Success of the projected entries,
  error gives a Failure whose message says "failed to load", cleaned-up a Failure whose
  message says "has been cleaned up". The callback passed to subscribeChanges pushes the
  very value the first read would return in the same state, and the value a whole
  evaluation returns is the table's for the state it leaves the collection in.
\<close>

theorem status_table_applied:
  "matchesTable st (projector k (coll w))
     (snd (evalInitial k (w\<lparr>coll := (coll w)\<lparr>status := st\<rparr>\<rparr>)))
   \<and> selfValue (runCallback (OwnCallback k) (w\<lparr>coll := (coll w)\<lparr>status := st\<rparr>\<rparr>)) =
       Some (snd (evalInitial k (w\<lparr>coll := (coll w)\<lparr>status := st\<rparr>\<rparr>)))
   \<and> matchesTable (status (coll (fst (evalRead create q options k w))))
       (projector k (coll (fst (evalRead create q options k w))))
       (snd (evalRead create q options k w))"
proof -
  let ?w = "w\<lparr>coll := (coll w)\<lparr>status := st\<rparr>\<rparr>"
  have p: "projector k (coll ?w) = projector k (coll w)"
    by (cases k) (simp_all add: arrayProjection_def singleProjection_def)
  have a: "snd (evalInitial k ?w) = translate k st (projector k (coll w))"
    using p by (simp add: evalInitial_value tableImage_def)
  have b: "selfValue (runCallback (OwnCallback k) ?w) = Some (snd (evalInitial k ?w))"
    by (simp only: runCallback_value evalInitial_value)
  let ?s = "evalSubscribe create q options k w"
  have c: "coll (fst (evalRead create q options k w)) = coll ?s"
    by (simp only: evalRead_phases evalInitial_coll)
  have d: "snd (evalRead create q options k w) = tableImage k (coll ?s)"
    by (simp only: evalRead_phases evalInitial_value)
  show ?thesis
    using b by (simp only: a c d tableImage_def matchesTable_translate simp_thms)
qed

theorem status_table_applied_witness:
  "snd (evalInitial QueryAtom (world0\<lparr>coll := (coll world0)\<lparr>status := Error\<rparr>\<rparr>)) =
     Failure (JsError ''Query failed to load'')
   \<and> matchesTable Error (projector QueryAtom (coll world0))
       (Failure (JsError ''Query failed to load''))
   \<and> selfValue (runCallback (OwnCallback QueryAtom)
       (world0\<lparr>coll := (coll world0)\<lparr>status := Error\<rparr>\<rparr>)) =
       Some (Failure (JsError ''Query failed to load''))"
  using status_table_applied [of Error QueryAtom world0 idleEngine enabledQuery None]
  by (simp add: world0_def makeQuery_initial_def read_status_def)

section \<open>Subscribing and sampling\<close>

lemma evalSubscribe_coll:
  "coll (evalSubscribe create q options k w) =
     (backing create q options k w)
       \<lparr>syncStarted := True,
        subscribers := subscribers (backing create q options k w) @
          [(issued (backing create q options k w), OwnCallback k)],
        issued := Suc (issued (backing create q options k w))\<rparr>"
  by (cases k)
    (simp_all add: makeCollectionAtom_subscribe_def makeSingleCollectionAtom_subscribe_def
      makeQuery_subscribe_def backing_def call_startSyncImmediate_def
      call_subscribeChanges_def subscribeChanges_def addFinalizer_def Let_def)

lemma evalSubscribe_trace:
  "trace (evalSubscribe create q options k w) =
     trace w @
       [if k = QueryAtom
        then CreateLiveQueryCollection (config_startSync (liveQueryConfigOf q options))
               (config_gcTime (liveQueryConfigOf q options))
        else StartSyncImmediate,
        SubscribeChanges (issued (backing create q options k w)),
        AddFinalizer (issued (backing create q options k w))]"
  by (cases k)
    (simp_all add: makeCollectionAtom_subscribe_def makeSingleCollectionAtom_subscribe_def
      makeQuery_subscribe_def backing_def call_startSyncImmediate_def
      call_subscribeChanges_def subscribeChanges_def addFinalizer_def Let_def)

lemma evalSubscribe_finalizers:
  "finalizers (evalSubscribe create q options k w) =
     finalizers w @ [issued (backing create q options k w)]"
  by (cases k)
    (simp_all add: makeCollectionAtom_subscribe_def makeSingleCollectionAtom_subscribe_def
      makeQuery_subscribe_def backing_def call_startSyncImmediate_def
      call_subscribeChanges_def subscribeChanges_def addFinalizer_def Let_def)

lemma evalInitial_trace:
  "trace (fst (evalInitial k w)) =
     trace w @ ReadStatus #
       (if status (coll w) = Ready
        then (if k = QueryAtom then [ReadConfig, ReadEntries] else [ReadEntries])
        else [])"
  by (cases k; cases "status (coll w)")
     (simp_all add: makeCollectionAtom_initial_def makeSingleCollectionAtom_initial_def
        makeQuery_initial_def world_ops Let_def)

lemma evalInitial_finalizers: "finalizers (fst (evalInitial k w)) = finalizers w"
  by (cases k; cases "status (coll w)")
     (simp_all add: makeCollectionAtom_initial_def makeSingleCollectionAtom_initial_def
        makeQuery_initial_def world_ops Let_def)

lemma fold_runCallback_coll: "coll (fold (\<lambda>s. runCallback (snd s)) xs w) = coll w"
  by (induction xs arbitrary: w) (simp_all add: runCallback_coll)

lemma notify_coll: "coll (notify w) = coll w"
  by (simp add: notify_def fold_runCallback_coll)

lemma notify_last:
  assumes "subscribers (coll w) = xs @ [(h, OwnCallback k)]"
  shows "selfValue (notify w) = Some (tableImage k (coll w))"
  using assms by (simp add: notify_def runCallback_value fold_runCallback_coll)

lemma transition_coll:
  "coll (transition ch w) =
     (coll w)\<lparr>status := newStatus ch, entries := newEntries ch,
               config_singleResult := newSingleResult ch\<rparr>"
  by (simp add: transition_def notify_coll)

lemma transition_value:
  assumes "subscribers (coll w) = xs @ [(h, OwnCallback k)]"
  shows "selfValue (transition ch w) = Some (tableImage k (coll (transition ch w)))"
proof -
  let ?w = "w\<lparr>coll := (coll w)\<lparr>status := newStatus ch, entries := newEntries ch,
                                 config_singleResult := newSingleResult ch\<rparr>\<rparr>"
  have "subscribers (coll ?w) = xs @ [(h, OwnCallback k)]"
    using assms by simp
  then have "selfValue (notify ?w) = Some (tableImage k (coll ?w))"
    by (rule notify_last)
  then show ?thesis
    by (simp add: transition_def notify_coll)
qed

text \<open>
  Claim C2. In every evaluation of a cell of the three bridging constructors the
  subscription is opened before the status is read for the value the evaluation returns,
  and the status is not read before it: the callback is already registered with the
  collection when the status is sampled. So if the collection reports a transition
  between the two, the callback runs and pushes the value of the new status, and the
  sample that follows returns the value of the new status as well.
\<close>

theorem subscribed_before_first_sample:
  "subscribedBeforeSample (newEvents w (fst (evalRead create q options k w)))
   \<and> (issued (backing create q options k w), OwnCallback k) \<in>
       set (subscribers (coll (evalSubscribe create q options k w)))
   \<and> snd (evalInitial k (transition ch (evalSubscribe create q options k w))) =
       translate k (newStatus ch)
         (projector k (coll (transition ch (evalSubscribe create q options k w))))
   \<and> selfValue (transition ch (evalSubscribe create q options k w)) =
       Some (translate k (newStatus ch)
         (projector k (coll (transition ch (evalSubscribe create q options k w)))))"
proof -
  let ?s = "evalSubscribe create q options k w"
  have tr: "newEvents w (fst (evalRead create q options k w)) =
      [if k = QueryAtom
        then CreateLiveQueryCollection (config_startSync (liveQueryConfigOf q options))
               (config_gcTime (liveQueryConfigOf q options))
        else StartSyncImmediate,
        SubscribeChanges (issued (backing create q options k w)),
        AddFinalizer (issued (backing create q options k w))] @
      ReadStatus #
       (if status (coll ?s) = Ready
        then (if k = QueryAtom then [ReadConfig, ReadEntries] else [ReadEntries])
        else [])"
    by (simp add: newEvents_def evalRead_phases evalInitial_trace evalSubscribe_trace)
  have one: "subscribedBeforeSample (newEvents w (fst (evalRead create q options k w)))"
    unfolding tr by (simp add: subscribedBeforeSample_def)
  have subs: "subscribers (coll ?s) = subscribers (backing create q options k w) @
      [(issued (backing create q options k w), OwnCallback k)]"
    by (simp add: evalSubscribe_coll)
  have two: "(issued (backing create q options k w), OwnCallback k) \<in> set (subscribers (coll ?s))"
    by (simp add: subs)
  have st: "status (coll (transition ch ?s)) = newStatus ch"
    by (simp add: transition_coll)
  have three: "snd (evalInitial k (transition ch ?s)) =
      translate k (newStatus ch) (projector k (coll (transition ch ?s)))"
    by (simp only: evalInitial_value tableImage_def st)
  have four: "selfValue (transition ch ?s) =
      Some (translate k (newStatus ch) (projector k (coll (transition ch ?s))))"
    using transition_value [OF subs, of ch] by (simp only: tableImage_def st)
  show ?thesis using one two three four by blast
qed

theorem subscribed_before_first_sample_witness:
  "subscribedBeforeSample (newEvents world0
      (fst (evalRead idleEngine enabledQuery None CollectionAtom world0)))
   \<and> newEvents world0 (fst (evalRead idleEngine enabledQuery None CollectionAtom world0)) =
       [StartSyncImmediate, SubscribeChanges 0, AddFinalizer 0, ReadStatus, ReadEntries]
   \<and> snd (evalInitial CollectionAtom
        (transition errorChange
          (evalSubscribe idleEngine enabledQuery None CollectionAtom world0))) =
       Failure (JsError ''Collection failed to load'')
   \<and> selfValue (transition errorChange
          (evalSubscribe idleEngine enabledQuery None CollectionAtom world0)) =
       Some (Failure (JsError ''Collection failed to load''))"
  using subscribed_before_first_sample
    [of world0 idleEngine enabledQuery None CollectionAtom errorChange]
  by (simp add: errorChange_def newEvents_def evalRead_phases evalInitial_trace
      evalSubscribe_trace evalSubscribe_coll backing_def startSyncImmediate_def world0_def
      del: evalInitial.simps evalSubscribe.simps evalRead.simps)

section \<open>The visible value\<close>

lemma fold_transition_invariant:
  assumes "subscribers (coll w) = xs @ [(h, OwnCallback k)]"
    and "selfValue w = Some (tableImage k (coll w))"
  shows "selfValue (fold transition chs w) = Some (tableImage k (coll (fold transition chs w)))"
  using assms
proof (induction chs arbitrary: w)
  case Nil
  then show ?case by simp
next
  case (Cons ch chs)
  have s: "subscribers (coll (transition ch w)) = xs @ [(h, OwnCallback k)]"
    using Cons.prems(1) by (simp add: transition_coll)
  have v: "selfValue (transition ch w) = Some (tableImage k (coll (transition ch w)))"
    using Cons.prems(1) by (rule transition_value)
  show ?case using Cons.IH [OF s v] by simp
qed

lemma fold_transition_status:
  "status (coll (fold transition chs w)) =
     (if chs = [] then status (coll w) else newStatus (last chs))"
  by (induction chs arbitrary: w) (simp_all add: transition_coll)

lemma get_cell_coll:
  "coll (fst (get_cell (evalRead create q options k) w)) =
     coll (evalSubscribe create q options k w)"
  by (simp add: get_cell_def split_beta evalRead_phases evalInitial_coll)

lemma get_cell_value:
  "selfValue (fst (get_cell (evalRead create q options k) w)) =
     Some (tableImage k (coll (evalSubscribe create q options k w)))"
  by (simp add: get_cell_def split_beta evalRead_phases evalInitial_value)

lemma tableImage_failure:
  "status c = Error \<or> status c = CleanedUp \<Longrightarrow> tableImage k c \<noteq> Success v"
  by (auto simp: tableImage_def)

text \<open>
  Claim C3. After the host has evaluated a cell of the three bridging constructors and the
  collection has reported any series of transitions, the value readers of the cell see is
  the status table's value for the state of the collection after the last of them, whose
  status is the one the last transition reported. In particular it is not a Success when
  that status is error or cleaned-up.
\<close>

theorem visible_value_follows_latest_status:
  "selfValue (afterTransitions create q options k w chs) =
     Some (tableImage k (coll (afterTransitions create q options k w chs)))
   \<and> status (coll (afterTransitions create q options k w chs)) =
       (if chs = [] then status (backing create q options k w) else newStatus (last chs))
   \<and> (status (coll (afterTransitions create q options k w chs)) = Error
        \<or> status (coll (afterTransitions create q options k w chs)) = CleanedUp
       \<longrightarrow> (\<forall>v. selfValue (afterTransitions create q options k w chs) \<noteq> Some (Success v)))"
proof -
  let ?m = "fst (get_cell (evalRead create q options k) w)"
  let ?b = "backing create q options k w"
  have subs: "subscribers (coll ?m) = subscribers ?b @ [(issued ?b, OwnCallback k)]"
    by (simp add: get_cell_coll evalSubscribe_coll)
  have val: "selfValue ?m = Some (tableImage k (coll ?m))"
    by (simp only: get_cell_value get_cell_coll)
  have one: "selfValue (afterTransitions create q options k w chs) =
      Some (tableImage k (coll (afterTransitions create q options k w chs)))"
    unfolding afterTransitions_def by (rule fold_transition_invariant [OF subs val])
  have two: "status (coll (afterTransitions create q options k w chs)) =
      (if chs = [] then status ?b else newStatus (last chs))"
    unfolding afterTransitions_def
    by (simp add: fold_transition_status get_cell_coll evalSubscribe_coll)
  have three: "status (coll (afterTransitions create q options k w chs)) = Error
        \<or> status (coll (afterTransitions create q options k w chs)) = CleanedUp
       \<longrightarrow> (\<forall>v. selfValue (afterTransitions create q options k w chs) \<noteq> Some (Success v))"
  proof (intro impI allI)
    fix v
    assume st: "status (coll (afterTransitions create q options k w chs)) = Error
        \<or> status (coll (afterTransitions create q options k w chs)) = CleanedUp"
    have "tableImage k (coll (afterTransitions create q options k w chs)) \<noteq> Success v"
      using st by (rule tableImage_failure)
    then show "selfValue (afterTransitions create q options k w chs) \<noteq> Some (Success v)"
      by (simp add: one)
  qed
  show ?thesis using one two three by blast
qed

theorem visible_value_follows_latest_status_witness:
  "status (coll (afterTransitions idleEngine enabledQuery None CollectionAtom world0
      [readyChange, errorChange])) = Error
   \<and> selfValue (afterTransitions idleEngine enabledQuery None CollectionAtom world0
      [readyChange, errorChange]) = Some (Failure (JsError ''Collection failed to load''))
   \<and> selfValue (afterTransitions idleEngine enabledQuery None CollectionAtom world0
      [errorChange, readyChange]) = Some (Success (Many [''x'', ''y'']))"
  using visible_value_follows_latest_status
    [of idleEngine enabledQuery None CollectionAtom world0 "[readyChange, errorChange]"]
    visible_value_follows_latest_status
    [of idleEngine enabledQuery None CollectionAtom world0 "[errorChange, readyChange]"]
  by (simp add: tableImage_def errorChange_def readyChange_def arrayProjection_def
      afterTransitions_def transition_coll
      del: evalInitial.simps evalSubscribe.simps evalRead.simps)

section \<open>Evaluations: their log, their finalizer, their teardown\<close>

lemma evalRead_trace:
  "newEvents w (fst (evalRead create q options k w)) =
      [if k = QueryAtom
        then CreateLiveQueryCollection (config_startSync (liveQueryConfigOf q options))
               (config_gcTime (liveQueryConfigOf q options))
        else StartSyncImmediate,
        SubscribeChanges (issued (backing create q options k w)),
        AddFinalizer (issued (backing create q options k w)),
        ReadStatus] @
       (if status (backing create q options k w) = Ready
        then (if k = QueryAtom then [ReadConfig, ReadEntries] else [ReadEntries])
        else [])"
  by (simp add: newEvents_def evalRead_phases evalInitial_trace evalSubscribe_trace
      evalSubscribe_coll)

lemma evalRead_finalizers:
  "finalizers (fst (evalRead create q options k w)) =
     finalizers w @ [issued (backing create q options k w)]"
  by (simp add: evalRead_phases evalInitial_finalizers evalSubscribe_finalizers)

lemma evalRead_coll:
  "coll (fst (evalRead create q options k w)) = coll (evalSubscribe create q options k w)"
  by (simp add: evalRead_phases evalInitial_coll)

lemma teardown_single:
  assumes "finalizers w = [h]"
  shows "teardown w = call_unsubscribe h (w\<lparr>finalizers := []\<rparr>)"
  using assms by (simp add: teardown_def)

lemma teardown_none:
  assumes "finalizers w = []"
  shows "teardown w = w"
  using assms by (simp add: teardown_def)

text \<open>
  Claim C9. An evaluation of a cell of the three bridging constructors, in a cell with no
  finalizer registered before, opens exactly one subscription and registers exactly one
  finalizer, the one that releases the handle subscribeChanges returned. Tearing the cell
  down makes exactly one unsubscribe call, for that handle, after which the handle is no
  longer registered with the collection and no finalizer is left: a second teardown does
  nothing.
\<close>

theorem one_subscription_one_release:
  assumes "finalizers w = []"
  shows "filter isSubscribe (newEvents w (fst (evalRead create q options k w))) =
       [SubscribeChanges (issued (backing create q options k w))]
   \<and> filter isAddFinalizer (newEvents w (fst (evalRead create q options k w))) =
       [AddFinalizer (issued (backing create q options k w))]
   \<and> finalizers (fst (evalRead create q options k w)) =
       [issued (backing create q options k w)]
   \<and> newEvents (fst (evalRead create q options k w))
        (teardown (fst (evalRead create q options k w))) =
       [Unsubscribe (issued (backing create q options k w))]
   \<and> issued (backing create q options k w) \<notin>
       fst ` set (subscribers (coll (teardown (fst (evalRead create q options k w)))))
   \<and> finalizers (teardown (fst (evalRead create q options k w))) = []
   \<and> teardown (teardown (fst (evalRead create q options k w))) =
       teardown (fst (evalRead create q options k w))"
proof -
  let ?w = "fst (evalRead create q options k w)"
  let ?h = "issued (backing create q options k w)"
  have ev: "filter isSubscribe (newEvents w ?w) = [SubscribeChanges ?h]
      \<and> filter isAddFinalizer (newEvents w ?w) = [AddFinalizer ?h]"
    by (simp add: evalRead_trace)
  have fin: "finalizers ?w = [?h]"
    using assms by (simp add: evalRead_finalizers)
  have td: "teardown ?w = call_unsubscribe ?h (?w\<lparr>finalizers := []\<rparr>)"
    using fin by (rule teardown_single)
  have rel: "newEvents ?w (teardown ?w) = [Unsubscribe ?h]"
    by (simp add: td call_unsubscribe_def newEvents_def)
  have gone: "?h \<notin> fst ` set (subscribers (coll (teardown ?w)))"
    by (auto simp: td call_unsubscribe_def unsubscribe_def)
  have fin': "finalizers (teardown ?w) = []"
    by (simp add: td call_unsubscribe_def)
  have twice: "teardown (teardown ?w) = teardown ?w"
    using fin' by (rule teardown_none)
  show ?thesis using ev fin rel gone fin' twice by blast
qed

theorem one_subscription_one_release_witness:
  "finalizers world0 = []
   \<and> newEvents world0 (fst (evalRead idleEngine enabledQuery None SingleAtom world0)) =
       [StartSyncImmediate, SubscribeChanges 0, AddFinalizer 0, ReadStatus, ReadEntries]
   \<and> newEvents (fst (evalRead idleEngine enabledQuery None SingleAtom world0))
        (teardown (fst (evalRead idleEngine enabledQuery None SingleAtom world0))) =
       [Unsubscribe 0]
   \<and> subscribers (coll (teardown (fst (evalRead idleEngine enabledQuery None SingleAtom world0)))) = []"
proof -
  have f: "finalizers world0 = []" by (simp add: world0_def)
  have t: "newEvents world0 (fst (evalRead idleEngine enabledQuery None SingleAtom world0)) =
       [StartSyncImmediate, SubscribeChanges 0, AddFinalizer 0, ReadStatus, ReadEntries]"
    by (simp add: evalRead_trace backing_def startSyncImmediate_def world0_def
        del: evalRead.simps)
  have s: "subscribers (coll (fst (evalRead idleEngine enabledQuery None SingleAtom world0))) =
      [(0, OwnCallback SingleAtom)]"
    by (simp add: evalRead_coll evalSubscribe_coll backing_def startSyncImmediate_def world0_def
        del: evalRead.simps evalSubscribe.simps)
  have u: "subscribers (coll (teardown (fst (evalRead idleEngine enabledQuery None SingleAtom world0)))) = []"
    using f s
    by (simp add: teardown_def evalRead_finalizers backing_def startSyncImmediate_def
        call_unsubscribe_def unsubscribe_def world0_def del: evalRead.simps)
  show ?thesis
    using f t u one_subscription_one_release [OF f, of idleEngine enabledQuery None SingleAtom]
    by (simp add: backing_def startSyncImmediate_def world0_def del: evalRead.simps)
qed

section \<open>The Success value of a query atom\<close>

lemma makeQuery_read_value:
  "snd (makeQuery_read create q options w) =
     tableImage QueryAtom (create (liveQueryConfigOf q options))"
proof -
  have "snd (evalRead create q options QueryAtom w) =
      tableImage QueryAtom (coll (evalSubscribe create q options QueryAtom w))"
    by (simp only: evalRead_phases evalInitial_value)
  then show ?thesis
    by (simp add: tableImage_def evalSubscribe_coll backing_def arrayProjection_def
        singleProjection_def del: evalSubscribe.simps)
qed

lemma evalRead_query: "evalRead create q options QueryAtom = makeQuery_read create q options"
  by (rule ext) simp

text \<open>
  Claim C10. When the collection makeQuery created is ready, the Success value of the first
  read is the value of the first entry, or undefined when there is none, if the
  configuration of the collection has singleResult true, and the array of all entry values
  in order otherwise. The callback computes its Success value the same way from the
  configuration and entries the collection has when it is notified: after a transition to
  ready the value follows the configuration the transition left.
\<close>

theorem query_success_by_singleResult:
  "(status (create (liveQueryConfigOf q options)) = Ready \<longrightarrow>
      snd (makeQuery_read create q options w) =
        Success (if config_singleResult (create (liveQueryConfigOf q options)) = Some True
                 then (case entries (create (liveQueryConfigOf q options)) of
                         [] \<Rightarrow> Undefined | (key, v) # rest \<Rightarrow> One v)
                 else Many (map snd (entries (create (liveQueryConfigOf q options))))))
   \<and> (status (coll w) = Ready \<longrightarrow>
      selfValue (queryCallback w) =
        Some (Success (if config_singleResult (coll w) = Some True
                       then (case entries (coll w) of [] \<Rightarrow> Undefined | (key, v) # rest \<Rightarrow> One v)
                       else Many (map snd (entries (coll w))))))
   \<and> (newStatus ch = Ready \<longrightarrow>
      selfValue (transition ch (fst (get_cell (makeQuery_read create q options) w))) =
        Some (Success (if newSingleResult ch = Some True
                       then (case newEntries ch of [] \<Rightarrow> Undefined | (key, v) # rest \<Rightarrow> One v)
                       else Many (map snd (newEntries ch)))))"
proof -
  let ?c = "create (liveQueryConfigOf q options)"
  have one: "status ?c = Ready \<longrightarrow>
      snd (makeQuery_read create q options w) =
        Success (if config_singleResult ?c = Some True
                 then (case entries ?c of [] \<Rightarrow> Undefined | (key, v) # rest \<Rightarrow> One v)
                 else Many (map snd (entries ?c)))"
    by (simp add: makeQuery_read_value tableImage_def arrayProjection_def singleProjection_def)
  have two: "status (coll w) = Ready \<longrightarrow>
      selfValue (queryCallback w) =
        Some (Success (if config_singleResult (coll w) = Some True
                       then (case entries (coll w) of [] \<Rightarrow> Undefined | (key, v) # rest \<Rightarrow> One v)
                       else Many (map snd (entries (coll w)))))"
    by (simp add: queryCallback_value tableImage_def arrayProjection_def singleProjection_def)
  let ?m = "fst (get_cell (evalRead create q options QueryAtom) w)"
  have subs: "subscribers (coll ?m) =
      subscribers (backing create q options QueryAtom w) @
        [(issued (backing create q options QueryAtom w), OwnCallback QueryAtom)]"
    by (simp only: get_cell_coll evalSubscribe_coll) simp
  have v: "selfValue (transition ch ?m) = Some (tableImage QueryAtom (coll (transition ch ?m)))"
    using subs by (rule transition_value)
  have three: "newStatus ch = Ready \<longrightarrow>
      selfValue (transition ch (fst (get_cell (makeQuery_read create q options) w))) =
        Some (Success (if newSingleResult ch = Some True
                       then (case newEntries ch of [] \<Rightarrow> Undefined | (key, v) # rest \<Rightarrow> One v)
                       else Many (map snd (newEntries ch))))"
    using v [unfolded evalRead_query]
    by (simp add: transition_coll tableImage_def arrayProjection_def singleProjection_def)
  show ?thesis using one two three by blast
qed

theorem query_success_by_singleResult_witness:
  "status (readyEngine (liveQueryConfigOf enabledQuery None)) = Ready
   \<and> snd (makeQuery_read readyEngine enabledQuery None world0) = Success (One ''a'')
   \<and> status (coll world0) = Ready
   \<and> selfValue (queryCallback world0) = Some (Success (Many [''a'', ''b'']))
   \<and> newStatus readyChange = Ready
   \<and> selfValue (transition readyChange
        (fst (get_cell (makeQuery_read idleEngine enabledQuery None) world0))) =
       Some (Success (One ''x''))"
  using query_success_by_singleResult [of readyEngine enabledQuery None world0 readyChange]
    query_success_by_singleResult [of idleEngine enabledQuery None world0 readyChange]
  by (simp add: readyEngine_def world0_def readyChange_def)

section \<open>Starting the sync\<close>






section \<open>The stand-in builder and the conditional query\<close>




lemma runSteps_methodChain_proxy:
  "runSteps flag ProxyBuilder (methodChain ms) =
     Inr (if ms = [] then flag else False, ProxyBuilder)"
proof (induction ms arbitrary: flag)
  case Nil
  show ?case by (simp add: methodChain_def)
next
  case (Cons m ms)
  have step: "methodChain (m # ms) = Get (fst m) # Call (snd m) # methodChain ms"
    by (simp add: methodChain_def)
  show ?case
    using Cons.IH [of False]
    by (simp add: step proxy_get_def proxyFn_call_def)
qed

lemma runSteps_methodChain_real:
  assumes "\<forall>m \<in> set ms. fst m \<in> set builderMethods"
  shows "runSteps flag RealBuilder (methodChain ms) = Inr (flag, RealBuilder)"
  using assms
proof (induction ms)
  case Nil
  show ?case by (simp add: methodChain_def)
next
  case (Cons m ms)
  have step: "methodChain (m # ms) = Get (fst m) # Call (snd m) # methodChain ms"
    by (simp add: methodChain_def)
  show ?case
    using Cons by (simp add: step)
qed

lemma get_eval_makeQuery:
  assumes "createLiveQueryCollection create (liveQueryConfigOf q options) = Inr c"
  shows "get_eval (makeQuery_eval create q options) w =
     Inr (get_cell (makeQuery_read create q options) w)"
proof -
  have c: "c = create (liveQueryConfigOf q options)"
    using assms by (auto simp: createLiveQueryCollection_def split: sum.splits if_splits)
  have "makeQuery_read (\<lambda>cfg. c) q options w = makeQuery_read create q options w"
    by (simp add: c makeQuery_read_def makeQuery_subscribe_def)
  then show ?thesis
    using assms by (simp add: get_eval_def makeQuery_eval_def get_cell_def split_beta)
qed

lemma get_eval_makeQuery_throws:
  assumes "createLiveQueryCollection create (liveQueryConfigOf q options) = Inl e"
  shows "get_eval (makeQuery_eval create q options) w = Inl e"
  using assms by (simp add: get_eval_def makeQuery_eval_def)

lemma get_cell_snd: "snd (get_cell read w) = snd (read w)"
  by (simp add: get_cell_def split_beta)

lemma conditional_disabled:
  assumes "applyQueryFn q False ProxyBuilder = Inr (flag, v)"
    and "v = JSNull \<or> v = JSUndefined"
  shows "makeQueryConditional_read create q options w = Inr (w, None)"
  using assms by (auto simp: makeQueryConditional_read_def)





lemma enabledQuery_real: "applyQueryFn enabledQuery False RealBuilder = Inr (False, RealBuilder)"
  by (simp add: applyQueryFn_def enabledQuery_def runSteps_methodChain_real builderMethods_def)

lemma enabledQuery_created:
  "createLiveQueryCollection create (liveQueryConfigOf enabledQuery options) =
     Inr (create (liveQueryConfigOf enabledQuery options))"
  by (simp add: createLiveQueryCollection_def liveQueryConfigOf_def enabledQuery_real)

text \<open>
  Claim C4. When the descriptor returns null or undefined on the stand-in builder, the
  read function of makeQueryConditional returns undefined and leaves the world as it
  found it: no collection is created, no sync is started, no subscription is opened, and
  the cell shows undefined throughout.
\<close>

theorem disabled_query_is_absent:
  assumes "applyQueryFn q False ProxyBuilder = Inr (flag, v)"
    and "v = JSNull \<or> v = JSUndefined"
  shows "makeQueryConditional_read create q options w = Inr (w, None)
    \<and> makeQueryConditional_sequence create q options w chs =
        Inr (replicate (Suc (length chs)) None)"
proof -
  have r: "makeQueryConditional_read create q options w = Inr (w, None)"
    using assms by (rule conditional_disabled)
  then show ?thesis
    by (simp add: makeQueryConditional_sequence_def)
qed

theorem disabled_query_is_absent_witness:
  "applyQueryFn disabledQuery False ProxyBuilder = Inr (False, JSNull)
   \<and> makeQueryConditional_read idleEngine disabledQuery None world0 = Inr (world0, None)
   \<and> makeQueryConditional_sequence idleEngine disabledQuery None world0
        [readyChange, errorChange] = Inr [None, None, None]"
proof -
  have a: "applyQueryFn disabledQuery False ProxyBuilder = Inr (False, JSNull)"
    by (simp add: applyQueryFn_def disabledQuery_def)
  show ?thesis
    using a disabled_query_is_absent [OF a, of idleEngine None world0 "[readyChange, errorChange]"]
    by (simp add: numeral_2_eq_2)
qed




text \<open>
  Claim C6, as stated, fails. The descriptor \<^verbatim>\<open>(q) => q.from(todos).fn.where(cond)\<close>
  throws a TypeError on the stand-in builder: what the trap returns for \<^verbatim>\<open>fn\<close> is a plain
  function, which has no property \<^verbatim>\<open>where\<close>, and the call of \<^verbatim>\<open>undefined\<close> throws. The throw
  leaves the read function of makeQueryConditional.
\<close>

theorem stand_in_throws_counterexample:
  "applyQueryFn fnWhereQuery False ProxyBuilder = Inl TypeError
   \<and> makeQueryConditional_read idleEngine fnWhereQuery None world0 = Inl TypeError"
  by (simp add: makeQueryConditional_read_def applyQueryFn_def fnWhereQuery_def proxy_get_def
      proxyFn_call_def functionMembers_def)

text \<open>
  Claim C6, amended. Every property read on the stand-in builder yields a function whose
  call returns the stand-in again. So a descriptor that uses the builder only by chaining
  method calls on it, however many, runs on the stand-in without a throw and ends on the
  stand-in, unless it returns null or undefined itself; and the probe makes no call on the
  collaborators: the read function of makeQueryConditional then returns undefined in an
  unchanged world, or is the evaluation of the makeQuery cell alone.
\<close>

theorem stand_in_builder_method_chains:
  "evalStep flag ProxyBuilder (Get name) = Inr (False, ProxyFn)
   \<and> evalStep flag ProxyFn (Call args) = Inr (flag, ProxyBuilder)
   \<and> runSteps flag ProxyBuilder (methodChain ms) =
       Inr (if ms = [] then flag else False, ProxyBuilder)
   \<and> applyQueryFn \<lparr>steps = methodChain ms, returns = r\<rparr> False ProxyBuilder =
       Inr (False, case r of ReturnsNull \<Rightarrow> JSNull | ReturnsUndefined \<Rightarrow> JSUndefined
                   | ReturnsChain \<Rightarrow> ProxyBuilder)
   \<and> makeQueryConditional_read create \<lparr>steps = methodChain ms, returns = r\<rparr> options w =
       (if r = ReturnsChain
        then (case get_eval (makeQuery_eval create \<lparr>steps = methodChain ms, returns = r\<rparr>
                      options) w of
                Inl e \<Rightarrow> Inl e
              | Inr (w', result) \<Rightarrow> Inr (w', Some result))
        else Inr (w, None))"
proof -
  let ?q = "\<lparr>steps = methodChain ms, returns = r\<rparr>"
  have a: "\<And>r. applyQueryFn \<lparr>steps = methodChain ms, returns = r\<rparr> False ProxyBuilder =
       Inr (False, case r of ReturnsNull \<Rightarrow> JSNull | ReturnsUndefined \<Rightarrow> JSUndefined
                   | ReturnsChain \<Rightarrow> ProxyBuilder)"
    by (simp add: applyQueryFn_def runSteps_methodChain_proxy)
  have b: "makeQueryConditional_read create ?q options w =
       (if r = ReturnsChain
        then (case get_eval (makeQuery_eval create ?q options) w of
                Inl e \<Rightarrow> Inl e
              | Inr (w', result) \<Rightarrow> Inr (w', Some result))
        else Inr (w, None))"
    by (cases r) (simp_all add: makeQueryConditional_read_def a Let_def)
  show ?thesis
    using a b by (simp add: runSteps_methodChain_proxy proxy_get_def proxyFn_call_def)
qed

theorem stand_in_builder_method_chains_witness:
  "runSteps False ProxyBuilder (steps enabledQuery) = Inr (False, ProxyBuilder)
   \<and> applyQueryFn enabledQuery False ProxyBuilder = Inr (False, ProxyBuilder)
   \<and> makeQueryConditional_read idleEngine
        \<lparr>steps = methodChain [(''from'', [''todos''])], returns = ReturnsUndefined\<rparr> None world0 =
       Inr (world0, None)"
  using stand_in_builder_method_chains [of False "''from''" "[]"
      "[(''from'', [''todos'']), (''where'', [''cond''])]" ReturnsChain idleEngine None world0]
    stand_in_builder_method_chains [of False "''from''" "[]"
      "[(''from'', [''todos''])]" ReturnsUndefined idleEngine None world0]
  by (simp add: enabledQuery_def)

text \<open>
  Claim C7, as stated, fails. The descriptor \<^verbatim>\<open>(q) => q.from(todos).where.foo(y)\<close> throws
  a TypeError on the builder of the engine, inside createLiveQueryCollection; nothing
  catches it, and it leaves the read function of makeQueryUnsafe.
\<close>

theorem unsafe_throws_counterexample:
  "createLiveQueryCollection idleEngine (liveQueryConfigOf whereFooQuery None) = Inl TypeError
   \<and> makeQueryUnsafe_read idleEngine whereFooQuery None world0 = Inl TypeError"
  by (simp add: makeQueryUnsafe_read_def get_eval_def makeQuery_eval_def
      createLiveQueryCollection_def liveQueryConfigOf_def applyQueryFn_def whereFooQuery_def
      builderMethods_def functionMembers_def)

text \<open>
  Claim C7, amended. The read function of makeQueryUnsafe throws exactly what
  createLiveQueryCollection throws. When that call returns a collection, the read function
  returns, whatever the makeQuery cell holds: the value of its Success, which is the
  projection of the collection when the collection is ready, and undefined when it holds
  Initial or Failure, that is in every other status.
\<close>

theorem unsafe_collapses_result:
  "(\<forall>e. createLiveQueryCollection create (liveQueryConfigOf q options) = Inl e \<longrightarrow>
      makeQueryUnsafe_read create q options w = Inl e)
   \<and> (\<forall>c. createLiveQueryCollection create (liveQueryConfigOf q options) = Inr c \<longrightarrow>
      makeQueryUnsafe_read create q options w =
        Inr (fst (get_cell (makeQuery_read create q options) w),
             case snd (makeQuery_read create q options w) of
               Success v \<Rightarrow> v | Initial b \<Rightarrow> Undefined | Failure e \<Rightarrow> Undefined)
      \<and> makeQueryUnsafe_read create q options w =
        Inr (fst (get_cell (makeQuery_read create q options) w),
             if status c = Ready then projector QueryAtom c else Undefined))"
proof -
  let ?cfg = "liveQueryConfigOf q options"
  have thrown: "\<And>e. createLiveQueryCollection create ?cfg = Inl e \<Longrightarrow>
      makeQueryUnsafe_read create q options w = Inl e"
    by (simp add: makeQueryUnsafe_read_def get_eval_makeQuery_throws)
  have returned: "\<And>c. createLiveQueryCollection create ?cfg = Inr c \<Longrightarrow>
      makeQueryUnsafe_read create q options w =
        Inr (fst (get_cell (makeQuery_read create q options) w),
             case snd (makeQuery_read create q options w) of
               Success v \<Rightarrow> v | Initial b \<Rightarrow> Undefined | Failure e \<Rightarrow> Undefined)"
    by (simp add: makeQueryUnsafe_read_def get_eval_makeQuery getOrElse_def split_beta
        get_cell_snd)
  have by_status: "\<And>c. createLiveQueryCollection create ?cfg = Inr c \<Longrightarrow>
      (case snd (makeQuery_read create q options w) of
         Success v \<Rightarrow> v | Initial b \<Rightarrow> Undefined | Failure e \<Rightarrow> Undefined) =
      (if status c = Ready then projector QueryAtom c else Undefined)"
  proof -
    fix c
    assume "createLiveQueryCollection create ?cfg = Inr c"
    then have c: "c = create ?cfg"
      by (auto simp: createLiveQueryCollection_def split: sum.splits if_splits)
    show "(case snd (makeQuery_read create q options w) of
         Success v \<Rightarrow> v | Initial b \<Rightarrow> Undefined | Failure e \<Rightarrow> Undefined) =
      (if status c = Ready then projector QueryAtom c else Undefined)"
      by (cases "status c") (simp_all add: makeQuery_read_value tableImage_def c)
  qed
  show ?thesis
    using thrown returned by_status by simp
qed

theorem unsafe_collapses_result_witness:
  "createLiveQueryCollection readyEngine (liveQueryConfigOf enabledQuery None) =
     Inr (readyEngine (liveQueryConfigOf enabledQuery None))
   \<and> makeQueryUnsafe_read readyEngine enabledQuery None world0 =
       Inr (fst (get_cell (makeQuery_read readyEngine enabledQuery None) world0), One ''a'')
   \<and> makeQueryUnsafe_read idleEngine enabledQuery None world0 =
       Inr (fst (get_cell (makeQuery_read idleEngine enabledQuery None) world0), Undefined)
   \<and> createLiveQueryCollection idleEngine (liveQueryConfigOf whereFooQuery None) = Inl TypeError
   \<and> makeQueryUnsafe_read idleEngine whereFooQuery None world0 = Inl TypeError"
proof -
  have t: "createLiveQueryCollection idleEngine (liveQueryConfigOf whereFooQuery None) =
      Inl TypeError"
    by (simp add: createLiveQueryCollection_def liveQueryConfigOf_def applyQueryFn_def
        whereFooQuery_def builderMethods_def functionMembers_def)
  have c: "createLiveQueryCollection readyEngine (liveQueryConfigOf enabledQuery None) =
       Inr (readyEngine (liveQueryConfigOf enabledQuery None))"
    by (rule enabledQuery_created)
  have c': "createLiveQueryCollection idleEngine (liveQueryConfigOf enabledQuery None) =
       Inr (idleEngine (liveQueryConfigOf enabledQuery None))"
    by (rule enabledQuery_created)
  have one: "makeQueryUnsafe_read readyEngine enabledQuery None world0 =
       Inr (fst (get_cell (makeQuery_read readyEngine enabledQuery None) world0),
            if status (readyEngine (liveQueryConfigOf enabledQuery None)) = Ready
            then projector QueryAtom (readyEngine (liveQueryConfigOf enabledQuery None))
            else Undefined)"
    using c unsafe_collapses_result [of readyEngine enabledQuery None world0] by blast
  have two: "makeQueryUnsafe_read idleEngine enabledQuery None world0 =
       Inr (fst (get_cell (makeQuery_read idleEngine enabledQuery None) world0),
            if status (idleEngine (liveQueryConfigOf enabledQuery None)) = Ready
            then projector QueryAtom (idleEngine (liveQueryConfigOf enabledQuery None))
            else Undefined)"
    using c' unsafe_collapses_result [of idleEngine enabledQuery None world0] by blast
  have three: "makeQueryUnsafe_read idleEngine whereFooQuery None world0 = Inl TypeError"
    using t unsafe_collapses_result [of idleEngine whereFooQuery None world0] by blast
  have p: "projector QueryAtom (readyEngine (liveQueryConfigOf enabledQuery None)) = One ''a''"
    by (simp add: readyEngine_def singleProjection_def)
  have s1: "status (readyEngine (liveQueryConfigOf enabledQuery None)) = Ready"
    by (simp add: readyEngine_def)
  have s2: "status (idleEngine (liveQueryConfigOf enabledQuery None)) = Idle"
    by (simp add: idleEngine_def)
  from t c one two three show ?thesis
    unfolding p s1 s2 by simp
qed

end
